theory Spec2Isabelle
  imports Main "HOL-Library.AList"
begin

section \<open>Data model of index.ts\<close>

text \<open>
  JavaScript numbers are modelled as \<open>int\<close>: the counts and the millisecond timestamps the
  middleware handles are integers far below \<open>2^53\<close>, where doubles are exact.
\<close>

datatype provider = upstash | vercelKV

text \<open>\<open>RateLimitOptions\<close>: the result of \<open>RateLimitOptionsSchema.parse\<close>.\<close>

record RateLimitOptions =
  timeframe :: int
  requestsLimit :: int
  disableLRU :: bool
  provider :: provider
  errorMessage :: "string option"

text \<open>\<open>Partial<RateLimitOptions>\<close>: every field may be left out.\<close>

record PartialOptions =
  opt_timeframe :: "int option"
  opt_requestsLimit :: "int option"
  opt_disableLRU :: "bool option"
  opt_provider :: "provider option"
  opt_errorMessage :: "string option"

record RateLimitState =
  remaining :: int
  reset :: int

text \<open>
  What \<open>getKey(req)\<close> can evaluate to at run time. The declared type is \<open>string\<close>; the
  README also passes an \<open>async\<close> extractor, whose call yields a Promise object
  (\<open>PromiseOf oid s\<close>: the object with identity \<open>oid\<close> that will resolve to \<open>s\<close>), and
  a header lookup cast to \<open>string\<close> can be \<open>undefined\<close>.
\<close>

datatype js_key = Str string | Undefined | PromiseOf nat string

text \<open>JavaScript truthiness, as \<open>!key\<close> tests it: only the empty string and
  \<open>undefined\<close> are falsy here; an object, hence a Promise, is always truthy.\<close>

fun truthy :: "js_key \<Rightarrow> bool" where
  "truthy (Str s) = (s \<noteq> [])"
| "truthy Undefined = False"
| "truthy (PromiseOf oid s) = True"

text \<open>The message of an error body \<open>{error: message}\<close>. The default message is the template
  literal of line 45, whose two interpolated numbers are kept symbolic
  (\<open>requestsLimit\<close> and \<open>timeframe\<close>, the latter printed as \<open>timeframe / 60\<close>).\<close>

datatype message = Text string | TooManyRequests int int

text \<open>A response: \<open>res.status(n).json({error: m})\<close>, or whatever the wrapped handler
  returned.\<close>

datatype 'a response = Json nat message | FromHandler 'a

text \<open>How a call of the wrapped handler ends: it returns a value (or a promise that
  fulfils), it throws synchronously, or it returns a promise that rejects (what an
  \<open>async\<close> handler does when its body throws).\<close>

datatype ('e, 'a) handler_result = Returns 'a | Throws 'e | Rejects 'e

text \<open>The \<open>pending\<close> field of the remote answer: falsy, a promise that settles,
  or a promise that rejects.\<close>

datatype 'e pending = NoPending | Settles | Fails 'e

record 'e RatelimitResponse = RateLimitState +
  success :: bool
  pending :: "'e pending"

text \<open>\<open>await ratelimit.limit(key)\<close> either throws or yields a response.\<close>

datatype 'e limit_result = LimitThrows 'e | LimitReturns "'e RatelimitResponse"

text \<open>The observable effects of one request, in program order.\<close>

datatype event =
    CacheGet js_key
  | CacheSet js_key RateLimitState int
  | RemoteCall js_key
  | HandlerCall
  | ConsoleError js_key

section \<open>The bounded TTL cache\<close>

text \<open>
  Modelled from the spec: the class \<open>LRUCache\<close> comes from the package
  \<open>typescript-lru-cache\<close>, which index.ts imports and whose code is not part of the
  sources. The model follows section 4.1 of the specification: at most \<open>maxSize\<close> entries,
  most recently used first; \<open>get\<close> returns a stored state that has not expired and promotes
  it, and drops an expired entry; \<open>set\<close> with a positive \<open>ttl\<close> replaces the entry of the
  key, schedules its expiration at \<open>now + ttl\<close> and evicts from the least recently used
  end; \<open>set\<close> with \<open>ttl \<le> 0\<close> does nothing.
\<close>

record CacheEntry =
  state :: RateLimitState
  expiresAt :: int

type_synonym LRUCache = "(js_key \<times> CacheEntry) list"

definition maxSize :: nat where
  "maxSize = 500"

definition expired :: "int \<Rightarrow> CacheEntry \<Rightarrow> bool" where
  "expired now e = (expiresAt e \<le> now)"

definition cache_get :: "int \<Rightarrow> js_key \<Rightarrow> LRUCache \<Rightarrow> RateLimitState option \<times> LRUCache" where
  "cache_get now k c =
     (case map_of c k of
        None \<Rightarrow> (None, c)
      | Some e \<Rightarrow>
          if expired now e then (None, AList.delete k c)
          else (Some (state e), (k, e) # AList.delete k c))"

definition cache_set :: "int \<Rightarrow> js_key \<Rightarrow> RateLimitState \<Rightarrow> int \<Rightarrow> LRUCache \<Rightarrow> LRUCache" where
  "cache_set now k st ttl c =
     (if ttl \<le> 0 then c
      else take maxSize ((k, \<lparr>state = st, expiresAt = now + ttl\<rparr>) # AList.delete k c))"

section \<open>Construction: \<open>withRateLimit\<close>, lines 17 to 46\<close>

datatype construct_error = ZodError | MissingUpstashEnv

text \<open>\<open>RateLimitOptionsSchema.parse\<close>: defaults for the fields left out, and
  \<open>z.number().positive()\<close> for the two numbers.\<close>

definition parse :: "PartialOptions \<Rightarrow> construct_error + RateLimitOptions" where
  "parse p =
     (let tf = (case opt_timeframe p of None \<Rightarrow> 60 | Some n \<Rightarrow> n);
          rl = (case opt_requestsLimit p of None \<Rightarrow> 5 | Some n \<Rightarrow> n)
      in if tf \<le> 0 \<or> rl \<le> 0 then Inl ZodError
         else Inr \<lparr>timeframe = tf, requestsLimit = rl,
                   disableLRU = (case opt_disableLRU p of None \<Rightarrow> False | Some b \<Rightarrow> b),
                   provider = (case opt_provider p of None \<Rightarrow> upstash | Some v \<Rightarrow> v),
                   errorMessage = opt_errorMessage p\<rparr>)"

text \<open>\<open>!X\<close> for an environment variable: unset or empty.\<close>

fun missing :: "string option \<Rightarrow> bool" where
  "missing None = True"
| "missing (Some s) = (s = [])"

text \<open>What the closure returned by \<open>withRateLimit\<close> captures. The Redis client and the
  \<open>Ratelimit\<close> object are external; their answers enter each request through \<open>limit\<close>
  below.\<close>

record ('req, 'e, 'a) wrapper =
  handler :: "'req \<Rightarrow> ('e, 'a) handler_result"
  getKey :: "'req \<Rightarrow> js_key"
  opts :: RateLimitOptions

text \<open>\<open>withRateLimit\<close> up to the \<open>return\<close> of line 65: it throws, or it returns the closure
  together with its fresh, empty cache. \<open>env\<close> is \<open>process.env\<close>. Only the \<open>upstash\<close>
  branch reads it.\<close>

definition withRateLimit ::
  "('req \<Rightarrow> ('e, 'a) handler_result) \<Rightarrow> ('req \<Rightarrow> js_key) \<Rightarrow> PartialOptions \<Rightarrow>
   (string \<rightharpoonup> string) \<Rightarrow> construct_error + (('req, 'e, 'a) wrapper \<times> LRUCache)" where
  "withRateLimit h g options env =
     (case parse options of
        Inl err \<Rightarrow> Inl err
      | Inr ops \<Rightarrow>
          if provider ops = upstash then
            (if missing (env ''UPSTASH_URL'') \<or> missing (env ''UPSTASH_TOKEN'')
             then Inl MissingUpstashEnv
             else Inr (\<lparr>handler = h, getKey = g, opts = ops\<rparr>, []))
          else Inr (\<lparr>handler = h, getKey = g, opts = ops\<rparr>, []))"

definition defaultErrorMessage :: "RateLimitOptions \<Rightarrow> message" where
  "defaultErrorMessage ops = TooManyRequests (requestsLimit ops) (timeframe ops)"

text \<open>\<open>errorMessage || defaultErrorMessage\<close>: an empty override is falsy.\<close>

definition getErrorMessage :: "RateLimitOptions \<Rightarrow> message" where
  "getErrorMessage ops =
     (case errorMessage ops of
        None \<Rightarrow> defaultErrorMessage ops
      | Some m \<Rightarrow> if m = [] then defaultErrorMessage ops else Text m)"

section \<open>Handling one request, lines 48 to 88\<close>

text \<open>What the outside world supplies while one request is handled: the four readings of
  \<open>Date.now()\<close> (inside \<open>cache.get\<close>, at line 71, at line 60, inside \<open>cache.set\<close>) and
  the answer of \<open>ratelimit.limit\<close>.\<close>

record 'e io =
  t_get :: int
  t_check :: int
  t_ttl :: int
  t_set :: int
  limit :: "js_key \<Rightarrow> 'e limit_result"

definition handleLimitExceeded ::
  "('req, 'e, 'a) wrapper \<Rightarrow> js_key \<Rightarrow> 'a response \<times> event list" where
  "handleLimitExceeded w key = (Json 429 (getErrorMessage (opts w)), [ConsoleError key])"

definition updateCacheAndProceed ::
  "('req, 'e, 'a) wrapper \<Rightarrow> 'e io \<Rightarrow> int \<Rightarrow> int \<Rightarrow> js_key \<Rightarrow> 'req \<Rightarrow> LRUCache \<Rightarrow>
   ('e, 'a) handler_result \<times> LRUCache \<times> event list" where
  "updateCacheAndProceed w x rem rst key req c =
     (let ttl = rst - t_ttl x;
          st = \<lparr>remaining = rem, reset = rst\<rparr>
      in if 0 < ttl
         then (handler w req, cache_set (t_set x) key st ttl c, [CacheSet key st ttl, HandlerCall])
         else (handler w req, c, [HandlerCall]))"

text \<open>A handler call outside any \<open>try\<close> of the \<open>async\<close> closure: a throw and a rejected
  promise both reject the closure's promise (\<open>Inl\<close>).\<close>

fun outside_try :: "('e, 'a) handler_result \<Rightarrow> 'e + 'a response" where
  "outside_try (Returns a) = Inr (FromHandler a)"
| "outside_try (Throws e) = Inl e"
| "outside_try (Rejects e) = Inl e"

text \<open>\<open>return handler(req, res)\<close> inside the \<open>try\<close> of lines 79 to 87: a synchronous throw
  reaches the \<open>catch\<close>; a returned promise is not awaited inside the \<open>try\<close>, so its
  rejection is not caught.\<close>

fun inside_try :: "('e, 'a) handler_result \<Rightarrow> 'e + 'a response" where
  "inside_try (Returns a) = Inr (FromHandler a)"
| "inside_try (Throws e) = Inr (Json 500 (Text ''Internal Server Error''))"
| "inside_try (Rejects e) = Inl e"

text \<open>Lines 69 to 77. \<open>Some\<close> result: the closure has returned; \<open>None\<close>: control falls
  through to the \<open>try\<close>.\<close>

definition local_step ::
  "('req, 'e, 'a) wrapper \<Rightarrow> 'e io \<Rightarrow> js_key \<Rightarrow> 'req \<Rightarrow> LRUCache \<Rightarrow>
   ('e + 'a response) option \<times> LRUCache \<times> event list" where
  "local_step w x key req c =
     (if \<not> disableLRU (opts w) then
        (case cache_get (t_get x) key c of
           (None, c1) \<Rightarrow> (None, c1, [CacheGet key])
         | (Some cachedState, c1) \<Rightarrow>
             if t_check x < reset cachedState then
               (if 0 < remaining cachedState then
                  (case updateCacheAndProceed w x (remaining cachedState - 1)
                          (reset cachedState) key req c1 of
                     (h, c2, evs) \<Rightarrow> (Some (outside_try h), c2, CacheGet key # evs))
                else
                  (case handleLimitExceeded w key of
                     (r, evs) \<Rightarrow> (Some (Inr r), c1, CacheGet key # evs)))
             else (None, c1, [CacheGet key]))
      else (None, c, []))"

text \<open>Lines 79 to 87.\<close>

definition remote_step ::
  "('req, 'e, 'a) wrapper \<Rightarrow> 'e io \<Rightarrow> js_key \<Rightarrow> 'req \<Rightarrow> LRUCache \<Rightarrow>
   ('e + 'a response) \<times> LRUCache \<times> event list" where
  "remote_step w x key req c =
     (case limit x key of
        LimitThrows e \<Rightarrow> (Inr (Json 500 (Text ''Internal Server Error'')), c, [RemoteCall key])
      | LimitReturns r \<Rightarrow>
          (case pending r of
             Fails e \<Rightarrow> (Inr (Json 500 (Text ''Internal Server Error'')), c, [RemoteCall key])
           | _ \<Rightarrow>
               if \<not> success r then
                 (case handleLimitExceeded w key of
                    (resp, evs) \<Rightarrow> (Inr resp, c, RemoteCall key # evs))
               else if \<not> disableLRU (opts w) then
                 (case updateCacheAndProceed w x (remaining r - 1) (reset r) key req c of
                    (h, c2, evs) \<Rightarrow> (inside_try h, c2, RemoteCall key # evs))
               else (inside_try (handler w req), c, [RemoteCall key, HandlerCall])))"

text \<open>The closure of lines 65 to 88: the response (or the rejection), the cache afterwards
  and the effects.\<close>

definition handle_request ::
  "('req, 'e, 'a) wrapper \<Rightarrow> 'e io \<Rightarrow> 'req \<Rightarrow> LRUCache \<Rightarrow>
   ('e + 'a response) \<times> LRUCache \<times> event list" where
  "handle_request w x req c =
     (let key = getKey w req
      in if \<not> truthy key
         then (Inr (Json 400 (Text ''Unable to determine rate limit key'')), c, [])
         else
           (case local_step w x key req c of
              (Some out, c1, evs) \<Rightarrow> (out, c1, evs)
            | (None, c1, evs) \<Rightarrow>
                (case remote_step w x key req c1 of
                   (out, c2, evs2) \<Rightarrow> (out, c2, evs @ evs2))))"

text \<open>Requests served one after the other by the same closure, sharing its cache.\<close>

fun run ::
  "('req, 'e, 'a) wrapper \<Rightarrow> ('e io \<times> 'req) list \<Rightarrow> LRUCache \<Rightarrow>
   (('e + 'a response) \<times> event list) list \<times> LRUCache" where
  "run w [] c = ([], c)"
| "run w ((x, req) # rest) c =
     (case handle_request w x req c of
        (out, c1, evs) \<Rightarrow>
          (case run w rest c1 of (outs, c2) \<Rightarrow> ((out, evs) # outs, c2)))"

section \<open>Vocabulary of the statements\<close>

text \<open>\<open>if (pending) await pending\<close> completes without throwing.\<close>

fun settles :: "'e pending \<Rightarrow> bool" where
  "settles NoPending = True"
| "settles Settles = True"
| "settles (Fails e) = False"

text \<open>The cached state the closure trusts at lines 70 and 71: \<open>cache.get(key)\<close> returned
  it and its \<open>reset\<close> lies after the reading of the clock.\<close>

definition live_entry :: "'e io \<Rightarrow> js_key \<Rightarrow> LRUCache \<Rightarrow> RateLimitState option" where
  "live_entry x key c =
     (case fst (cache_get (t_get x) key c) of
        None \<Rightarrow> None
      | Some st \<Rightarrow> if t_check x < reset st then Some st else None)"

text \<open>Control reaches the \<open>try\<close> of line 79: the cache is disabled, or the lookup gave
  no state to trust.\<close>

definition reaches_remote :: "('req, 'e, 'a) wrapper \<Rightarrow> 'e io \<Rightarrow> js_key \<Rightarrow> LRUCache \<Rightarrow> bool" where
  "reaches_remote w x key c = (disableLRU (opts w) \<or> live_entry x key c = None)"

text \<open>The cache as lines 69 to 77 leave it when control falls through, and the effects
  recorded on the way.\<close>

definition after_lookup :: "('req, 'e, 'a) wrapper \<Rightarrow> 'e io \<Rightarrow> js_key \<Rightarrow> LRUCache \<Rightarrow> LRUCache" where
  "after_lookup w x key c =
     (if disableLRU (opts w) then c else snd (cache_get (t_get x) key c))"

definition lookup_events :: "('req, 'e, 'a) wrapper \<Rightarrow> js_key \<Rightarrow> event list" where
  "lookup_events w key = (if disableLRU (opts w) then [] else [CacheGet key])"

text \<open>Classifying effects.\<close>

fun is_remote :: "event \<Rightarrow> bool" where
  "is_remote (RemoteCall k) = True"
| "is_remote ev = False"

fun is_cache :: "event \<Rightarrow> bool" where
  "is_cache (CacheGet k) = True"
| "is_cache (CacheSet k st ttl) = True"
| "is_cache ev = False"

text \<open>All clock readings of a request lie before \<open>R\<close>, and the clock does not run
  backwards between line 60 and the \<open>cache.set\<close> that follows it.\<close>

definition in_window :: "int \<Rightarrow> 'e io \<Rightarrow> bool" where
  "in_window R x = (t_get x < R \<and> t_check x < R \<and> t_ttl x < R \<and> t_ttl x \<le> t_set x)"

text \<open>The cache holds, for \<open>key\<close>, the state \<open>{remaining: m, reset: R}\<close> in an entry that
  lives at least until \<open>R\<close>.\<close>

definition holds :: "js_key \<Rightarrow> int \<Rightarrow> int \<Rightarrow> LRUCache \<Rightarrow> bool" where
  "holds key m R c =
     (\<exists>t. map_of c key = Some \<lparr>state = \<lparr>remaining = m, reset = R\<rparr>, expiresAt = t\<rparr> \<and> R \<le> t)"

text \<open>A request served from the cache: the handler ran and the remote store was not
  called.\<close>

definition allowed_locally :: "('e + 'a response) \<times> event list \<Rightarrow> bool" where
  "allowed_locally p = (HandlerCall \<in> set (snd p) \<and> \<not> list_ex is_remote (snd p))"

text \<open>Concrete inputs: a handler that answers, the key extractor of a client \<open>k\<close>, a
  wrapper with the default time frame, an answer of the remote store, a remote store that
  is down, and a request during which every reading of the clock is \<open>t\<close>.\<close>

definition example_handler :: "unit \<Rightarrow> (string, string) handler_result" where
  "example_handler req = Returns ''ok''"

definition example_getKey :: "unit \<Rightarrow> js_key" where
  "example_getKey req = Str ''k''"

definition example_wrapper ::
  "(unit \<Rightarrow> (string, string) handler_result) \<Rightarrow> (unit \<Rightarrow> js_key) \<Rightarrow> int \<Rightarrow> bool \<Rightarrow>
   (unit, string, string) wrapper" where
  "example_wrapper h g lim off =
     \<lparr>handler = h, getKey = g,
      opts = \<lparr>timeframe = 60, requestsLimit = lim, disableLRU = off, provider = upstash,
              errorMessage = None\<rparr>\<rparr>"

definition answer :: "bool \<Rightarrow> int \<Rightarrow> int \<Rightarrow> string RatelimitResponse" where
  "answer ok rem rst = \<lparr>remaining = rem, reset = rst, success = ok, pending = Settles\<rparr>"

definition remote_down :: "string limit_result" where
  "remote_down = LimitThrows ''ECONNRESET''"

definition at :: "int \<Rightarrow> string limit_result \<Rightarrow> string io" where
  "at t ans = \<lparr>t_get = t, t_check = t, t_ttl = t, t_set = t, limit = (\<lambda>k. ans)\<rparr>"

text \<open>A cache in which client \<open>k\<close> has no unit left until 61000.\<close>

definition exhausted_cache :: LRUCache where
  "exhausted_cache =
     [(Str ''k'', \<lparr>state = \<lparr>remaining = 0, reset = 61000\<rparr>, expiresAt = 61000\<rparr>)]"

text \<open>A request during which the clock reaches 61000 between line 71 and line 60, and a
  cache in which client \<open>k\<close> has one unit left until 61000.\<close>

definition expiring_io :: "string io" where
  "expiring_io =
     \<lparr>t_get = 60999, t_check = 60999, t_ttl = 61000, t_set = 61000, limit = (\<lambda>k. remote_down)\<rparr>"

definition one_left_cache :: LRUCache where
  "one_left_cache =
     [(Str ''k'', \<lparr>state = \<lparr>remaining = 1, reset = 61000\<rparr>, expiresAt = 61000\<rparr>)]"

text \<open>Options that select a provider and leave everything else to the defaults.\<close>

definition only_provider :: "provider \<Rightarrow> PartialOptions" where
  "only_provider v =
     \<lparr>opt_timeframe = None, opt_requestsLimit = None, opt_disableLRU = None,
      opt_provider = Some v, opt_errorMessage = None\<rparr>"

text \<open>The README's \<open>getKeyFromNextAuth\<close> on a request without a session: an \<open>async\<close>
  function that returns \<open>''\<close>, so that its call yields a Promise of the empty string.\<close>

definition example_async_getKey :: "unit \<Rightarrow> js_key" where
  "example_async_getKey req = PromiseOf 0 []"

text \<open>A handler that throws synchronously, and an \<open>async\<close> handler whose body throws.\<close>

definition throwing_handler :: "unit \<Rightarrow> (string, string) handler_result" where
  "throwing_handler req = Throws ''boom''"

definition rejecting_handler :: "unit \<Rightarrow> (string, string) handler_result" where
  "rejecting_handler req = Rejects ''boom''"

text \<open>The effects of a request that called the remote store exactly once and never touched
  the cache.\<close>

definition one_remote_no_cache :: "('e + 'a response) \<times> event list \<Rightarrow> bool" where
  "one_remote_no_cache p =
     (length (filter is_remote (snd p)) = 1 \<and> \<not> list_ex is_cache (snd p))"

section \<open>Properties\<close>

subsection \<open>The cache\<close>

lemma map_of_cache_set:
  "0 < ttl \<Longrightarrow> map_of (cache_set now k st ttl c) k = Some \<lparr>state = st, expiresAt = now + ttl\<rparr>"
  by (simp add: cache_set_def maxSize_def)

lemma cache_get_fresh:
  "map_of c k = Some e \<Longrightarrow> now < expiresAt e \<Longrightarrow>
   cache_get now k c = (Some (state e), (k, e) # AList.delete k c)"
  by (simp add: cache_get_def expired_def)

lemma cache_get_absent: "map_of c k = None \<Longrightarrow> cache_get now k c = (None, c)"
  by (simp add: cache_get_def)

lemma cache_get_subset: "set (snd (cache_get now k c)) \<subseteq> set c"
  by (auto simp: cache_get_def AList.delete_eq dest: map_of_SomeD split: option.splits)

subsection \<open>The two paths of a request\<close>

lemma local_step_fallthrough:
  "reaches_remote w x key c \<Longrightarrow>
   local_step w x key req c = (None, after_lookup w x key c, lookup_events w key)"
  by (auto simp: reaches_remote_def local_step_def live_entry_def after_lookup_def
      lookup_events_def split: prod.splits option.splits if_splits)

lemma handle_request_remote:
  "truthy (getKey w req) \<Longrightarrow> reaches_remote w x (getKey w req) c \<Longrightarrow>
   handle_request w x req c =
     (case remote_step w x (getKey w req) req (after_lookup w x (getKey w req) c) of
        (out, c2, evs2) \<Rightarrow> (out, c2, lookup_events w (getKey w req) @ evs2))"
  by (simp add: handle_request_def local_step_fallthrough Let_def)

lemma local_step_live:
  "\<not> disableLRU (opts w) \<Longrightarrow> live_entry x key c = Some st \<Longrightarrow>
   local_step w x key req c =
     (if 0 < remaining st then
        (case updateCacheAndProceed w x (remaining st - 1) (reset st) key req
                (snd (cache_get (t_get x) key c)) of
           (h, c2, evs) \<Rightarrow> (Some (outside_try h), c2, CacheGet key # evs))
      else (Some (Inr (Json 429 (getErrorMessage (opts w)))),
            snd (cache_get (t_get x) key c), [CacheGet key, ConsoleError key]))"
  by (auto simp: local_step_def live_entry_def handleLimitExceeded_def
      split: prod.splits option.splits if_splits)

lemma handle_request_local:
  "truthy (getKey w req) \<Longrightarrow> \<not> disableLRU (opts w) \<Longrightarrow>
   live_entry x (getKey w req) c = Some st \<Longrightarrow>
   handle_request w x req c =
     (if 0 < remaining st then
        (case updateCacheAndProceed w x (remaining st - 1) (reset st) (getKey w req) req
                (snd (cache_get (t_get x) (getKey w req) c)) of
           (h, c2, evs) \<Rightarrow> (outside_try h, c2, CacheGet (getKey w req) # evs))
      else (Inr (Json 429 (getErrorMessage (opts w))),
            snd (cache_get (t_get x) (getKey w req) c),
            [CacheGet (getKey w req), ConsoleError (getKey w req)]))"
  by (simp add: handle_request_def local_step_live Let_def split: prod.splits)

subsection \<open>Local hits, one after the other\<close>

lemma live_entry_holds:
  "holds key m R c \<Longrightarrow> t_get x < R \<Longrightarrow> t_check x < R \<Longrightarrow>
   live_entry x key c = Some \<lparr>remaining = m, reset = R\<rparr>"
  by (auto simp: holds_def live_entry_def cache_get_def expired_def)

lemma holds_cache_set:
  "t_ttl x < R \<Longrightarrow> t_ttl x \<le> t_set x \<Longrightarrow>
   holds key m R (cache_set (t_set x) key \<lparr>remaining = m, reset = R\<rparr> (R - t_ttl x) c)"
  by (simp add: holds_def map_of_cache_set)

lemma holds_after_get:
  "holds key m R c \<Longrightarrow> t < R \<Longrightarrow> holds key m R (snd (cache_get t key c))"
  by (auto simp: holds_def cache_get_def expired_def)

lemma local_hit:
  assumes "\<not> disableLRU (opts w)" "truthy key" "getKey w req = key" "in_window R x"
    and "holds key m R c" "0 < m"
  shows "\<exists>c'. handle_request w x req c =
           (outside_try (handler w req), c',
            [CacheGet key, CacheSet key \<lparr>remaining = m - 1, reset = R\<rparr> (R - t_ttl x),
             HandlerCall]) \<and> holds key (m - 1) R c'"
proof -
  from assms have live: "live_entry x (getKey w req) c = Some \<lparr>remaining = m, reset = R\<rparr>"
    by (simp add: live_entry_holds in_window_def)
  from assms have t: "t_ttl x < R" "t_ttl x \<le> t_set x" by (simp_all add: in_window_def)
  show ?thesis
    using assms(1-3,6) t
    by (simp add: handle_request_local [OF _ _ live] updateCacheAndProceed_def Let_def
        holds_cache_set)
qed

lemma local_reject:
  assumes "\<not> disableLRU (opts w)" "truthy key" "getKey w req = key" "in_window R x"
    and "holds key m R c" "m \<le> 0"
  shows "\<exists>c'. handle_request w x req c =
           (Inr (Json 429 (getErrorMessage (opts w))), c',
            [CacheGet key, ConsoleError key]) \<and> holds key m R c'"
proof -
  from assms have live: "live_entry x (getKey w req) c = Some \<lparr>remaining = m, reset = R\<rparr>"
    by (simp add: live_entry_holds in_window_def)
  from assms have t: "t_get x < R" by (simp add: in_window_def)
  show ?thesis
    using assms(1-3,5,6) t
    by (simp add: handle_request_local [OF _ _ live] holds_after_get)
qed

lemmas model_defs =
  handle_request_def local_step_def remote_step_def updateCacheAndProceed_def
  handleLimitExceeded_def cache_get_def cache_set_def expired_def maxSize_def
  getErrorMessage_def defaultErrorMessage_def Let_def

lemmas example_defs =
  example_handler_def example_getKey_def example_wrapper_def answer_def remote_down_def at_def

lemma run_append:
  "run w (ps @ qs) c =
     (case run w ps c of (o1, c1) \<Rightarrow> (case run w qs c1 of (o2, c2) \<Rightarrow> (o1 @ o2, c2)))"
  by (induction ps arbitrary: c) (auto split: prod.splits)

lemma run_local_hits:
  assumes "\<not> disableLRU (opts w)" "truthy key"
  shows "list_all (\<lambda>p. getKey w (snd p) = key \<and> in_window R (fst p)) ps \<Longrightarrow>
         holds key m R c \<Longrightarrow> int (length ps) \<le> m \<Longrightarrow>
         \<exists>outs c'. run w ps c = (outs, c') \<and> length outs = length ps \<and>
           list_all allowed_locally outs \<and> holds key (m - int (length ps)) R c'"
proof (induction ps arbitrary: m c)
  case Nil
  then show ?case by simp
next
  case (Cons p ps)
  obtain x req where p: "p = (x, req)" by (cases p)
  from Cons.prems p have k: "getKey w req = key" and win: "in_window R x"
    and rest: "list_all (\<lambda>p. getKey w (snd p) = key \<and> in_window R (fst p)) ps"
    and pos: "0 < m" and len: "int (length ps) \<le> m - 1"
    by simp_all
  from local_hit [OF assms(1,2) k win Cons.prems(2) pos]
  obtain c1 where step: "handle_request w x req c =
      (outside_try (handler w req), c1,
       [CacheGet key, CacheSet key \<lparr>remaining = m - 1, reset = R\<rparr> (R - t_ttl x), HandlerCall])"
    and h1: "holds key (m - 1) R c1" by blast
  from Cons.IH [OF rest h1 len]
  obtain outs c' where r: "run w ps c1 = (outs, c')" and l: "length outs = length ps"
    and a: "list_all allowed_locally outs"
    and h: "holds key (m - 1 - int (length ps)) R c'" by blast
  have "m - 1 - int (length ps) = m - int (length (p # ps))" by simp
  with h have h': "holds key (m - int (length (p # ps))) R c'" by simp
  have first: "allowed_locally (outside_try (handler w req),
       [CacheGet key, CacheSet key \<lparr>remaining = m - 1, reset = R\<rparr> (R - t_ttl x), HandlerCall])"
    by (simp add: allowed_locally_def)
  show ?case
    using step r l a h' first by (simp add: p)
qed

lemma remote_allow:
  assumes "truthy (getKey w req)" "\<not> disableLRU (opts w)"
    and "live_entry x (getKey w req) c = None"
    and "limit x (getKey w req) = LimitReturns r" "success r" "settles (pending r)"
    and "t_ttl x < reset r"
  shows "handle_request w x req c =
     (inside_try (handler w req),
      cache_set (t_set x) (getKey w req) \<lparr>remaining = remaining r - 1, reset = reset r\<rparr>
        (reset r - t_ttl x) (snd (cache_get (t_get x) (getKey w req) c)),
      [CacheGet (getKey w req), RemoteCall (getKey w req),
       CacheSet (getKey w req) \<lparr>remaining = remaining r - 1, reset = reset r\<rparr>
         (reset r - t_ttl x),
       HandlerCall])"
proof -
  have rr: "reaches_remote w x (getKey w req) c"
    using assms(3) by (simp add: reaches_remote_def)
  show ?thesis
    using assms
    by (cases "pending r")
      (simp_all add: handle_request_remote [OF assms(1) rr] remote_step_def
        updateCacheAndProceed_def after_lookup_def lookup_events_def Let_def)
qed

subsection \<open>Rejection from the cache\<close>

lemma exhausted_entry:
  assumes "\<not> disableLRU (opts w)" "truthy (getKey w req)"
    and "live_entry x (getKey w req) c = Some st" "remaining st \<le> 0"
  shows "handle_request w x req c =
     (Inr (Json 429 (getErrorMessage (opts w))),
      snd (cache_get (t_get x) (getKey w req) c),
      [CacheGet (getKey w req), ConsoleError (getKey w req)])"
  using assms(4) by (simp add: handle_request_local [OF assms(2,1,3)])

lemma quota_then_reject:
  assumes lru: "\<not> disableLRU (opts w)" and key: "truthy key"
    and all: "list_all (\<lambda>p. getKey w (snd p) = key \<and> in_window (reset r) (fst p))
               ((x0, req0) # hits @ [(xn, reqn)])"
    and miss: "live_entry x0 key c = None"
    and ans: "limit x0 key = LimitReturns r" "success r" "settles (pending r)"
    and quota: "remaining r = int (length hits) + 1"
  shows "\<exists>outs c'. run w ((x0, req0) # hits @ [(xn, reqn)]) c =
           ((inside_try (handler w req0),
             [CacheGet key, RemoteCall key,
              CacheSet key \<lparr>remaining = remaining r - 1, reset = reset r\<rparr>
                (reset r - t_ttl x0),
              HandlerCall]) # outs @
            [(Inr (Json 429 (getErrorMessage (opts w))), [CacheGet key, ConsoleError key])],
            c') \<and>
           length outs = length hits \<and> list_all allowed_locally outs"
proof -
  let ?R = "reset r"
  from all have k0: "getKey w req0 = key" and w0: "in_window ?R x0"
    and hs: "list_all (\<lambda>p. getKey w (snd p) = key \<and> in_window ?R (fst p)) hits"
    and kn: "getKey w reqn = key" and wn: "in_window ?R xn"
    by simp_all
  define c1 where "c1 = cache_set (t_set x0) key \<lparr>remaining = remaining r - 1, reset = ?R\<rparr>
        (?R - t_ttl x0) (snd (cache_get (t_get x0) key c))"
  from w0 have t0: "t_ttl x0 < ?R" "t_ttl x0 \<le> t_set x0" by (simp_all add: in_window_def)
  have first: "handle_request w x0 req0 c =
     (inside_try (handler w req0), c1,
      [CacheGet key, RemoteCall key,
       CacheSet key \<lparr>remaining = remaining r - 1, reset = ?R\<rparr> (?R - t_ttl x0),
       HandlerCall])"
    using remote_allow [of w req0 x0 c r] key k0 lru miss ans t0(1)
    by (simp add: c1_def)
  have h1: "holds key (remaining r - 1) ?R c1"
    unfolding c1_def using t0 by (rule holds_cache_set)
  have len: "int (length hits) \<le> remaining r - 1" using quota by simp
  from run_local_hits [OF lru key hs h1 len]
  obtain outs c2 where r2: "run w hits c1 = (outs, c2)" and l: "length outs = length hits"
    and a: "list_all allowed_locally outs"
    and h2: "holds key (remaining r - 1 - int (length hits)) ?R c2" by blast
  have z: "remaining r - 1 - int (length hits) \<le> 0" using quota by simp
  from local_reject [OF lru key kn wn h2 z]
  obtain c3 where last: "handle_request w xn reqn c2 =
      (Inr (Json 429 (getErrorMessage (opts w))), c3, [CacheGet key, ConsoleError key])"
    by blast
  have "run w ((x0, req0) # hits @ [(xn, reqn)]) c =
      ((inside_try (handler w req0),
        [CacheGet key, RemoteCall key,
         CacheSet key \<lparr>remaining = remaining r - 1, reset = ?R\<rparr> (?R - t_ttl x0),
         HandlerCall]) # outs @
       [(Inr (Json 429 (getErrorMessage (opts w))), [CacheGet key, ConsoleError key])], c3)"
    using first r2 last by (simp add: run_append)
  with l a show ?thesis by blast
qed

text \<open>
  C1 (as amended). With the cache enabled, a request whose key has a trusted cached state
  with no unit left (\<open>remaining \<le> 0\<close>) is answered 429 with the configured or default
  message, and the only effects are the cache lookup and the log line: no remote call.
  More generally, when a cache miss is allowed by the remote store, which reports
  \<open>remaining = n + 1\<close>, and every request stays inside the window, the next \<open>n\<close> requests
  of that key are served from the cache and the one after them is rejected without a remote
  call. The number of allowed requests is fixed by the count the remote store reported, not
  by an arbitrary \<open>N \<le> requestsLimit\<close>.
\<close>

theorem exhausted_key_rejected_locally:
  "(\<not> disableLRU (opts w) \<and> truthy (getKey w req) \<and>
    live_entry x (getKey w req) c = Some st \<and> remaining st \<le> 0 \<longrightarrow>
      handle_request w x req c =
        (Inr (Json 429 (getErrorMessage (opts w))),
         snd (cache_get (t_get x) (getKey w req) c),
         [CacheGet (getKey w req), ConsoleError (getKey w req)])) \<and>
   (\<not> disableLRU (opts w) \<and> truthy key \<and>
    list_all (\<lambda>p. getKey w (snd p) = key \<and> in_window (reset r) (fst p))
      ((x0, req0) # hits @ [(xn, reqn)]) \<and>
    live_entry x0 key c0 = None \<and>
    limit x0 key = LimitReturns r \<and> success r \<and> settles (pending r) \<and>
    remaining r = int (length hits) + 1 \<longrightarrow>
      (\<exists>outs c'. run w ((x0, req0) # hits @ [(xn, reqn)]) c0 =
           ((inside_try (handler w req0),
             [CacheGet key, RemoteCall key,
              CacheSet key \<lparr>remaining = remaining r - 1, reset = reset r\<rparr>
                (reset r - t_ttl x0),
              HandlerCall]) # outs @
            [(Inr (Json 429 (getErrorMessage (opts w))), [CacheGet key, ConsoleError key])],
            c') \<and>
           length outs = length hits \<and> list_all allowed_locally outs))"
  using exhausted_entry [of w req x c st]
    quota_then_reject [of w key r x0 req0 hits xn reqn c0]
  by blast

text \<open>C1 as stated fails for \<open>N = 1\<close>: with \<open>requestsLimit = 5\<close>, after one allowed
  request (the remote store reported 4 units left) the second request is allowed too,
  although the remote store is down.\<close>

theorem second_request_allowed_counterexample:
  "map fst (fst (run (example_wrapper example_handler example_getKey 5 False)
      [(at 1000 (LimitReturns (answer True 4 61000)), ()), (at 2000 remote_down, ())] [])) =
   [Inr (FromHandler ''ok''), Inr (FromHandler ''ok'')]"
  by (simp add: model_defs example_defs)

theorem exhausted_key_rejected_locally_witness:
  "(\<not> disableLRU (opts (example_wrapper example_handler example_getKey 5 False)) \<and>
    truthy (getKey (example_wrapper example_handler example_getKey 5 False) ()) \<and>
    live_entry (at 2000 remote_down) (Str ''k'') exhausted_cache =
      Some \<lparr>remaining = 0, reset = 61000\<rparr> \<and>
    remaining \<lparr>remaining = 0, reset = 61000\<rparr> \<le> 0) \<and>
   handle_request (example_wrapper example_handler example_getKey 5 False)
      (at 2000 remote_down) () exhausted_cache =
     (Inr (Json 429 (TooManyRequests 5 60)), exhausted_cache,
      [CacheGet (Str ''k''), ConsoleError (Str ''k'')]) \<and>
   (list_all (\<lambda>p. getKey (example_wrapper example_handler example_getKey 5 False) (snd p) =
          Str ''k'' \<and> in_window (reset (answer True 2 61000)) (fst p))
      ((at 1000 (LimitReturns (answer True 2 61000)), ()) #
       [(at 2000 remote_down, ())] @ [(at 3000 remote_down, ())]) \<and>
    live_entry (at 1000 (LimitReturns (answer True 2 61000))) (Str ''k'') [] = None \<and>
    success (answer True 2 61000) \<and> settles (pending (answer True 2 61000)) \<and>
    remaining (answer True 2 61000) = int (length [(at 2000 remote_down, ())]) + 1) \<and>
   (\<exists>outs c'. run (example_wrapper example_handler example_getKey 5 False)
        ((at 1000 (LimitReturns (answer True 2 61000)), ()) #
         [(at 2000 remote_down, ())] @ [(at 3000 remote_down, ())]) [] =
      ((Inr (FromHandler ''ok''),
        [CacheGet (Str ''k''), RemoteCall (Str ''k''),
         CacheSet (Str ''k'') \<lparr>remaining = 1, reset = 61000\<rparr> 60000, HandlerCall]) # outs @
       [(Inr (Json 429 (TooManyRequests 5 60)),
         [CacheGet (Str ''k''), ConsoleError (Str ''k'')])], c') \<and>
      length outs = 1 \<and> list_all allowed_locally outs)"
  using exhausted_key_rejected_locally
    [where w = "example_wrapper example_handler example_getKey 5 False" and req = "()"
      and x = "at 2000 remote_down" and c = exhausted_cache
      and st = "\<lparr>remaining = 0, reset = 61000\<rparr>" and key = "Str ''k''"
      and r = "answer True 2 61000" and ?x0.0 = "at 1000 (LimitReturns (answer True 2 61000))"
      and ?req0.0 = "()" and hits = "[(at 2000 remote_down, ())]"
      and xn = "at 3000 remote_down" and reqn = "()" and ?c0.0 = "[]"]
  by (simp add: example_defs exhausted_cache_def live_entry_def in_window_def cache_get_def
      expired_def getErrorMessage_def defaultErrorMessage_def)

subsection \<open>What a remote allow caches\<close>

lemma remote_allow_entry:
  assumes "truthy (getKey w req)" "\<not> disableLRU (opts w)"
    and "live_entry x (getKey w req) c = None"
    and "limit x (getKey w req) = LimitReturns r" "success r" "settles (pending r)"
    and "t_ttl x < reset r"
  shows "map_of (fst (snd (handle_request w x req c))) (getKey w req) =
     Some \<lparr>state = \<lparr>remaining = remaining r - 1, reset = reset r\<rparr>,
           expiresAt = t_set x + (reset r - t_ttl x)\<rparr>"
  using assms(7) by (simp add: remote_allow [OF assms] map_of_cache_set)

lemma limit_two_trace:
  assumes o: "opts w = \<lparr>timeframe = 60, requestsLimit = 2, disableLRU = False,
                        provider = p, errorMessage = None\<rparr>"
    and k: "truthy key" "getKey w req = key" and h: "handler w req = Returns a"
    and w1: "in_window R x1" and w2: "in_window R x2" and w3: "in_window R x3"
    and ans: "limit x1 key = LimitReturns \<lparr>remaining = 2, reset = R, success = True, pending = pd\<rparr>"
      "settles pd"
  shows "run w [(x1, req), (x2, req), (x3, req)] [] =
     ([(Inr (FromHandler a),
        [CacheGet key, RemoteCall key,
         CacheSet key \<lparr>remaining = 1, reset = R\<rparr> (R - t_ttl x1), HandlerCall]),
       (Inr (FromHandler a),
        [CacheGet key, CacheSet key \<lparr>remaining = 0, reset = R\<rparr> (R - t_ttl x2), HandlerCall]),
       (Inr (Json 429 (TooManyRequests 2 60)), [CacheGet key, ConsoleError key])],
      [(key, \<lparr>state = \<lparr>remaining = 0, reset = R\<rparr>, expiresAt = t_set x2 + (R - t_ttl x2)\<rparr>)])"
proof -
  let ?c1 = "[(key, \<lparr>state = \<lparr>remaining = 1, reset = R\<rparr>, expiresAt = t_set x1 + (R - t_ttl x1)\<rparr>)]"
  let ?c2 = "[(key, \<lparr>state = \<lparr>remaining = 0, reset = R\<rparr>, expiresAt = t_set x2 + (R - t_ttl x2)\<rparr>)]"
  have lru: "\<not> disableLRU (opts w)" and msg: "getErrorMessage (opts w) = TooManyRequests 2 60"
    by (simp_all add: o getErrorMessage_def defaultErrorMessage_def)
  have s1: "handle_request w x1 req [] =
      (Inr (FromHandler a), ?c1,
       [CacheGet key, RemoteCall key,
        CacheSet key \<lparr>remaining = 1, reset = R\<rparr> (R - t_ttl x1), HandlerCall])"
    using w1 k h ans(2)
      remote_allow [of w req x1 "[]" "\<lparr>remaining = 2, reset = R, success = True, pending = pd\<rparr>"]
      lru ans(1)
    by (simp add: live_entry_def cache_get_def cache_set_def maxSize_def in_window_def)
  have l2: "live_entry x2 (getKey w req) ?c1 = Some \<lparr>remaining = 1, reset = R\<rparr>"
    using w1 w2 k by (simp add: live_entry_def cache_get_def expired_def in_window_def)
  have s2: "handle_request w x2 req ?c1 =
      (Inr (FromHandler a), ?c2,
       [CacheGet key, CacheSet key \<lparr>remaining = 0, reset = R\<rparr> (R - t_ttl x2), HandlerCall])"
    using w1 w2 k h lru handle_request_local [OF _ _ l2]
    by (simp add: updateCacheAndProceed_def cache_get_def cache_set_def expired_def
        maxSize_def in_window_def Let_def)
  have l3: "live_entry x3 (getKey w req) ?c2 = Some \<lparr>remaining = 0, reset = R\<rparr>"
    using w2 w3 k by (simp add: live_entry_def cache_get_def expired_def in_window_def)
  have s3: "handle_request w x3 req ?c2 =
      (Inr (Json 429 (TooManyRequests 2 60)), ?c2, [CacheGet key, ConsoleError key])"
    using w2 w3 k lru handle_request_local [OF _ _ l3] msg
    by (simp add: cache_get_def expired_def in_window_def)
  show ?thesis by (simp add: s1 s2 s3)
qed

text \<open>
  C2. When a cache miss is allowed by the remote store and the cache is enabled, the state
  written to the cache carries the reported \<open>remaining\<close> minus one (the write happens when
  the reported \<open>reset\<close> is still ahead). With \<open>requestsLimit = 2\<close>, \<open>timeframe = 60\<close> and an
  empty cache, three requests of one key inside the window give: remote call answered
  \<open>{success: true, remaining: 2}\<close>, cached 1, allowed; local hit, cached 0, allowed; local
  hit with nothing left, 429 and no remote call.
\<close>

theorem remote_allow_caches_remaining_minus_one:
  "(truthy (getKey w req) \<and> \<not> disableLRU (opts w) \<and>
    live_entry x (getKey w req) c = None \<and>
    limit x (getKey w req) = LimitReturns r \<and> success r \<and> settles (pending r) \<and>
    t_ttl x < reset r \<longrightarrow>
      snd (snd (handle_request w x req c)) =
        [CacheGet (getKey w req), RemoteCall (getKey w req),
         CacheSet (getKey w req) \<lparr>remaining = remaining r - 1, reset = reset r\<rparr>
           (reset r - t_ttl x),
         HandlerCall] \<and>
      map_of (fst (snd (handle_request w x req c))) (getKey w req) =
        Some \<lparr>state = \<lparr>remaining = remaining r - 1, reset = reset r\<rparr>,
              expiresAt = t_set x + (reset r - t_ttl x)\<rparr>) \<and>
   (opts w2 = \<lparr>timeframe = 60, requestsLimit = 2, disableLRU = False,
               provider = p, errorMessage = None\<rparr> \<and>
    truthy key \<and> getKey w2 rq = key \<and> handler w2 rq = Returns a \<and>
    in_window R x1 \<and> in_window R x2 \<and> in_window R x3 \<and>
    limit x1 key = LimitReturns \<lparr>remaining = 2, reset = R, success = True, pending = pd\<rparr> \<and>
    settles pd \<longrightarrow>
      run w2 [(x1, rq), (x2, rq), (x3, rq)] [] =
        ([(Inr (FromHandler a),
           [CacheGet key, RemoteCall key,
            CacheSet key \<lparr>remaining = 1, reset = R\<rparr> (R - t_ttl x1), HandlerCall]),
          (Inr (FromHandler a),
           [CacheGet key, CacheSet key \<lparr>remaining = 0, reset = R\<rparr> (R - t_ttl x2),
            HandlerCall]),
          (Inr (Json 429 (TooManyRequests 2 60)), [CacheGet key, ConsoleError key])],
         [(key, \<lparr>state = \<lparr>remaining = 0, reset = R\<rparr>,
                 expiresAt = t_set x2 + (R - t_ttl x2)\<rparr>)]))"
proof (intro conjI impI)
  assume a: "truthy (getKey w req) \<and> \<not> disableLRU (opts w) \<and>
    live_entry x (getKey w req) c = None \<and>
    limit x (getKey w req) = LimitReturns r \<and> success r \<and> settles (pending r) \<and>
    t_ttl x < reset r"
  then show "snd (snd (handle_request w x req c)) =
        [CacheGet (getKey w req), RemoteCall (getKey w req),
         CacheSet (getKey w req) \<lparr>remaining = remaining r - 1, reset = reset r\<rparr>
           (reset r - t_ttl x),
         HandlerCall]"
    by (simp add: remote_allow)
  from a show "map_of (fst (snd (handle_request w x req c))) (getKey w req) =
        Some \<lparr>state = \<lparr>remaining = remaining r - 1, reset = reset r\<rparr>,
              expiresAt = t_set x + (reset r - t_ttl x)\<rparr>"
    by (simp add: remote_allow_entry)
next
  assume "opts w2 = \<lparr>timeframe = 60, requestsLimit = 2, disableLRU = False,
               provider = p, errorMessage = None\<rparr> \<and>
    truthy key \<and> getKey w2 rq = key \<and> handler w2 rq = Returns a \<and>
    in_window R x1 \<and> in_window R x2 \<and> in_window R x3 \<and>
    limit x1 key = LimitReturns \<lparr>remaining = 2, reset = R, success = True, pending = pd\<rparr> \<and>
    settles pd"
  then show "run w2 [(x1, rq), (x2, rq), (x3, rq)] [] =
        ([(Inr (FromHandler a),
           [CacheGet key, RemoteCall key,
            CacheSet key \<lparr>remaining = 1, reset = R\<rparr> (R - t_ttl x1), HandlerCall]),
          (Inr (FromHandler a),
           [CacheGet key, CacheSet key \<lparr>remaining = 0, reset = R\<rparr> (R - t_ttl x2),
            HandlerCall]),
          (Inr (Json 429 (TooManyRequests 2 60)), [CacheGet key, ConsoleError key])],
         [(key, \<lparr>state = \<lparr>remaining = 0, reset = R\<rparr>,
                 expiresAt = t_set x2 + (R - t_ttl x2)\<rparr>)])"
    using limit_two_trace [of w2 p key rq a R x1 x2 x3 pd] by blast
qed

theorem remote_allow_caches_remaining_minus_one_witness:
  "(truthy (getKey (example_wrapper example_handler example_getKey 2 False) ()) \<and>
    \<not> disableLRU (opts (example_wrapper example_handler example_getKey 2 False)) \<and>
    live_entry (at 1000 (LimitReturns (answer True 2 61000))) (Str ''k'') [] = None \<and>
    success (answer True 2 61000) \<and> settles (pending (answer True 2 61000)) \<and>
    t_ttl (at 1000 (LimitReturns (answer True 2 61000))) < reset (answer True 2 61000)) \<and>
   handle_request (example_wrapper example_handler example_getKey 2 False)
     (at 1000 (LimitReturns (answer True 2 61000))) () [] =
     (Inr (FromHandler ''ok''),
      [(Str ''k'', \<lparr>state = \<lparr>remaining = 1, reset = 61000\<rparr>, expiresAt = 61000\<rparr>)],
      [CacheGet (Str ''k''), RemoteCall (Str ''k''),
       CacheSet (Str ''k'') \<lparr>remaining = 1, reset = 61000\<rparr> 60000, HandlerCall]) \<and>
   (in_window 61000 (at 1000 (LimitReturns (answer True 2 61000))) \<and>
    in_window 61000 (at 2000 remote_down) \<and> in_window 61000 (at 3000 remote_down)) \<and>
   run (example_wrapper example_handler example_getKey 2 False)
     [(at 1000 (LimitReturns (answer True 2 61000)), ()), (at 2000 remote_down, ()),
      (at 3000 remote_down, ())] [] =
     ([(Inr (FromHandler ''ok''),
        [CacheGet (Str ''k''), RemoteCall (Str ''k''),
         CacheSet (Str ''k'') \<lparr>remaining = 1, reset = 61000\<rparr> 60000, HandlerCall]),
       (Inr (FromHandler ''ok''),
        [CacheGet (Str ''k''),
         CacheSet (Str ''k'') \<lparr>remaining = 0, reset = 61000\<rparr> 59000, HandlerCall]),
       (Inr (Json 429 (TooManyRequests 2 60)),
        [CacheGet (Str ''k''), ConsoleError (Str ''k'')])],
      [(Str ''k'', \<lparr>state = \<lparr>remaining = 0, reset = 61000\<rparr>, expiresAt = 61000\<rparr>)])"
  using remote_allow_caches_remaining_minus_one
    [where w = "example_wrapper example_handler example_getKey 2 False" and req = "()"
      and x = "at 1000 (LimitReturns (answer True 2 61000))" and c = "[]"
      and r = "answer True 2 61000"
      and ?w2.0 = "example_wrapper example_handler example_getKey 2 False"
      and p = upstash and key = "Str ''k''" and rq = "()" and a = "''ok''" and R = 61000
      and ?x1.0 = "at 1000 (LimitReturns (answer True 2 61000))"
      and ?x2.0 = "at 2000 remote_down" and ?x3.0 = "at 3000 remote_down" and pd = Settles]
  by (simp add: model_defs example_defs live_entry_def in_window_def)

text \<open>
  C3 fails on the code. When the remote store grants the last unit it answers
  \<open>{success: true, remaining: 0}\<close>, and line 83 caches \<open>remaining - 1\<close> without the guard
  \<open>remaining > 0\<close> that line 72 applies before the same decrement: the cache then stores
  \<open>remaining = -1\<close>.
\<close>

theorem last_unit_cached_as_minus_one:
  "handle_request (example_wrapper example_handler example_getKey 5 False)
     (at 1000 (LimitReturns (answer True 0 61000))) () [] =
     (Inr (FromHandler ''ok''),
      [(Str ''k'', \<lparr>state = \<lparr>remaining = - 1, reset = 61000\<rparr>, expiresAt = 61000\<rparr>)],
      [CacheGet (Str ''k''), RemoteCall (Str ''k''),
       CacheSet (Str ''k'') \<lparr>remaining = - 1, reset = 61000\<rparr> 60000, HandlerCall])"
  by (simp add: model_defs example_defs)

text \<open>The local path alone keeps the stored count non-negative.\<close>

lemma local_hit_keeps_nonnegative:
  assumes "truthy (getKey w req)" "\<not> disableLRU (opts w)"
    and "live_entry x (getKey w req) c = Some st"
    and "CacheSet k st' ttl \<in> set (snd (snd (handle_request w x req c)))"
  shows "0 \<le> remaining st'"
  using assms(4)
  by (auto simp: handle_request_local [OF assms(1-3)] updateCacheAndProceed_def Let_def
      split: if_splits)

subsection \<open>A remote refusal\<close>

lemma remote_reject:
  assumes "truthy (getKey w req)" "reaches_remote w x (getKey w req) c"
    and "limit x (getKey w req) = LimitReturns r" "\<not> success r" "settles (pending r)"
  shows "handle_request w x req c =
     (Inr (Json 429 (getErrorMessage (opts w))), after_lookup w x (getKey w req) c,
      lookup_events w (getKey w req) @ [RemoteCall (getKey w req), ConsoleError (getKey w req)])"
  using assms(3-5)
  by (cases "pending r")
    (simp_all add: handle_request_remote [OF assms(1,2)] remote_step_def
      handleLimitExceeded_def)

lemma after_lookup_unseen: "map_of c key = None \<Longrightarrow> after_lookup w x key c = c"
  by (simp add: after_lookup_def cache_get_absent)

lemma after_lookup_subset: "set (after_lookup w x key c) \<subseteq> set c"
  by (simp add: after_lookup_def cache_get_subset)

lemma cache_get_after_get:
  "now \<le> t \<Longrightarrow> fst (cache_get t k' (snd (cache_get now k c))) = fst (cache_get t k' c)"
  by (cases "k' = k")
    (auto simp: cache_get_def expired_def AList.delete_conv split: option.splits)

lemma after_lookup_same_content:
  "t_get x \<le> t \<Longrightarrow>
   fst (cache_get t k' (after_lookup w x key c)) = fst (cache_get t k' c)"
  by (simp add: after_lookup_def cache_get_after_get)

text \<open>C4 as stated fails: the remote store refuses a request of an unseen key, with a
  \<open>reset\<close> in the future; the answer is 429 and the cache is still empty.\<close>

theorem remote_reject_not_cached_counterexample:
  "handle_request (example_wrapper example_handler example_getKey 5 False)
     (at 1000 (LimitReturns (answer False 0 61000))) () [] =
     (Inr (Json 429 (TooManyRequests 5 60)), [],
      [CacheGet (Str ''k''), RemoteCall (Str ''k''), ConsoleError (Str ''k'')])"
  by (simp add: model_defs example_defs)

text \<open>
  C4 (as amended). When the remote store signals that the ceiling was exceeded, the answer
  is 429 with the configured or default message and nothing is written to the cache: the
  cache is as the lookup left it, all its entries were there before, for a key without an
  entry it is unchanged, and every later lookup returns what it would have returned.
\<close>

theorem remote_reject_writes_nothing:
  "truthy (getKey w req) \<and> reaches_remote w x (getKey w req) c \<and>
   limit x (getKey w req) = LimitReturns r \<and> \<not> success r \<and> settles (pending r) \<longrightarrow>
     handle_request w x req c =
       (Inr (Json 429 (getErrorMessage (opts w))), after_lookup w x (getKey w req) c,
        lookup_events w (getKey w req) @
        [RemoteCall (getKey w req), ConsoleError (getKey w req)]) \<and>
     set (after_lookup w x (getKey w req) c) \<subseteq> set c \<and>
     (map_of c (getKey w req) = None \<longrightarrow> after_lookup w x (getKey w req) c = c) \<and>
     (t_get x \<le> t \<longrightarrow>
        fst (cache_get t k' (after_lookup w x (getKey w req) c)) = fst (cache_get t k' c))"
  using remote_reject [of w req x c r] after_lookup_subset [of w x "getKey w req" c]
    after_lookup_unseen [of c "getKey w req" w x]
    after_lookup_same_content [of x t k' w "getKey w req" c]
  by blast

theorem remote_reject_writes_nothing_witness:
  "(truthy (getKey (example_wrapper example_handler example_getKey 5 False) ()) \<and>
    reaches_remote (example_wrapper example_handler example_getKey 5 False)
      (at 1000 (LimitReturns (answer False 0 61000))) (Str ''k'') [] \<and>
    \<not> success (answer False 0 61000) \<and> settles (pending (answer False 0 61000)) \<and>
    map_of ([] :: LRUCache) (Str ''k'') = None) \<and>
   handle_request (example_wrapper example_handler example_getKey 5 False)
     (at 1000 (LimitReturns (answer False 0 61000))) () [] =
     (Inr (Json 429 (TooManyRequests 5 60)), [],
      [CacheGet (Str ''k''), RemoteCall (Str ''k''), ConsoleError (Str ''k'')]) \<and>
   after_lookup (example_wrapper example_handler example_getKey 5 False)
     (at 1000 (LimitReturns (answer False 0 61000))) (Str ''k'') [] = [] \<and>
   t_get (at 1000 (LimitReturns (answer False 0 61000))) \<le> 2000 \<and>
   fst (cache_get 2000 (Str ''k'')
     (after_lookup (example_wrapper example_handler example_getKey 5 False)
       (at 1000 (LimitReturns (answer False 0 61000))) (Str ''k'') [])) = None"
  using remote_reject_writes_nothing
    [where w = "example_wrapper example_handler example_getKey 5 False" and req = "()"
      and x = "at 1000 (LimitReturns (answer False 0 61000))" and c = "[]"
      and r = "answer False 0 61000" and t = 2000 and k' = "Str ''k''"]
  by (simp add: example_defs reaches_remote_def live_entry_def after_lookup_def
      lookup_events_def cache_get_def getErrorMessage_def defaultErrorMessage_def)

subsection \<open>Elapsed windows\<close>

lemma skip_write:
  "rst \<le> t_ttl x \<Longrightarrow>
   updateCacheAndProceed w x rem rst key req c = (handler w req, c, [HandlerCall])"
  by (simp add: updateCacheAndProceed_def)

lemma local_hit_elapsed:
  assumes "truthy (getKey w req)" "\<not> disableLRU (opts w)"
    and "live_entry x (getKey w req) c = Some st" "0 < remaining st" "reset st \<le> t_ttl x"
  shows "handle_request w x req c =
     (outside_try (handler w req), snd (cache_get (t_get x) (getKey w req) c),
      [CacheGet (getKey w req), HandlerCall])"
  using assms(4,5) by (simp add: handle_request_local [OF assms(1-3)] skip_write)

lemma remote_allow_elapsed:
  assumes "truthy (getKey w req)" "reaches_remote w x (getKey w req) c"
    and "limit x (getKey w req) = LimitReturns r" "success r" "settles (pending r)"
    and "reset r \<le> t_ttl x"
  shows "handle_request w x req c =
     (inside_try (handler w req), after_lookup w x (getKey w req) c,
      lookup_events w (getKey w req) @ [RemoteCall (getKey w req), HandlerCall])"
  using assms(3-6)
  by (cases "pending r")
    (simp_all add: handle_request_remote [OF assms(1,2)] remote_step_def skip_write)

lemma cache_writes_positive_ttl:
  "CacheSet k st ttl \<in> set (snd (snd (handle_request w x req c))) \<Longrightarrow>
   0 < ttl \<and> ttl = reset st - t_ttl x"
  by (auto simp: handle_request_def local_step_def remote_step_def updateCacheAndProceed_def
      handleLimitExceeded_def Let_def
      split: prod.splits option.splits if_splits limit_result.splits pending.splits)

text \<open>
  C5. A cache write whose \<open>ttl = reset - Date.now()\<close> is not positive is skipped:
  \<open>updateCacheAndProceed\<close> then returns the cache as it was and only calls the handler. So
  after a local hit and after a remote allow with an elapsed window the cache is as the
  lookup left it and no write is among the effects; and every write a request performs has
  a positive \<open>ttl\<close>, that is, a \<open>reset\<close> after the clock reading of line 60.
\<close>

theorem elapsed_window_not_cached:
  "(rst \<le> t_ttl x1 \<longrightarrow>
      updateCacheAndProceed w1 x1 rem rst key1 rq1 c1 = (handler w1 rq1, c1, [HandlerCall])) \<and>
   (truthy (getKey w req) \<and> \<not> disableLRU (opts w) \<and>
    live_entry x (getKey w req) c = Some st \<and> 0 < remaining st \<and> reset st \<le> t_ttl x \<longrightarrow>
      handle_request w x req c =
        (outside_try (handler w req), snd (cache_get (t_get x) (getKey w req) c),
         [CacheGet (getKey w req), HandlerCall])) \<and>
   (truthy (getKey w3 rq3) \<and> reaches_remote w3 x3 (getKey w3 rq3) c3 \<and>
    limit x3 (getKey w3 rq3) = LimitReturns r \<and> success r \<and> settles (pending r) \<and>
    reset r \<le> t_ttl x3 \<longrightarrow>
      handle_request w3 x3 rq3 c3 =
        (inside_try (handler w3 rq3), after_lookup w3 x3 (getKey w3 rq3) c3,
         lookup_events w3 (getKey w3 rq3) @ [RemoteCall (getKey w3 rq3), HandlerCall])) \<and>
   (CacheSet k st4 ttl \<in> set (snd (snd (handle_request w4 x4 rq4 c4))) \<longrightarrow>
      0 < ttl \<and> ttl = reset st4 - t_ttl x4)"
  using skip_write [of rst x1 w1 rem key1 rq1 c1] local_hit_elapsed [of w req x c st]
    remote_allow_elapsed [of w3 rq3 x3 c3 r] cache_writes_positive_ttl [of k st4 ttl w4 x4 rq4 c4]
  by blast

theorem elapsed_window_not_cached_witness:
  "((61000 :: int) \<le> t_ttl expiring_io \<and>
    live_entry expiring_io (Str ''k'') one_left_cache = Some \<lparr>remaining = 1, reset = 61000\<rparr> \<and>
    reaches_remote (example_wrapper example_handler example_getKey 5 False)
      (at 1000 (LimitReturns (answer True 4 1000))) (Str ''k'') [] \<and>
    reset (answer True 4 1000) \<le> t_ttl (at 1000 (LimitReturns (answer True 4 1000))) \<and>
    CacheSet (Str ''k'') \<lparr>remaining = 3, reset = 61000\<rparr> 60000 \<in>
      set (snd (snd (handle_request (example_wrapper example_handler example_getKey 5 False)
        (at 1000 (LimitReturns (answer True 4 61000))) () [])))) \<and>
   updateCacheAndProceed (example_wrapper example_handler example_getKey 5 False) expiring_io
     0 61000 (Str ''k'') () one_left_cache = (Returns ''ok'', one_left_cache, [HandlerCall]) \<and>
   handle_request (example_wrapper example_handler example_getKey 5 False) expiring_io ()
     one_left_cache =
     (Inr (FromHandler ''ok''), one_left_cache, [CacheGet (Str ''k''), HandlerCall]) \<and>
   handle_request (example_wrapper example_handler example_getKey 5 False)
     (at 1000 (LimitReturns (answer True 4 1000))) () [] =
     (Inr (FromHandler ''ok''), [], [CacheGet (Str ''k''), RemoteCall (Str ''k''), HandlerCall]) \<and>
   (0 :: int) < 60000 \<and>
   (60000 :: int) = reset \<lparr>remaining = 3, reset = 61000\<rparr> -
      t_ttl (at 1000 (LimitReturns (answer True 4 61000)))"
  using elapsed_window_not_cached
    [where rst = 61000 and ?x1.0 = expiring_io
      and ?w1.0 = "example_wrapper example_handler example_getKey 5 False" and rem = 0
      and ?key1.0 = "Str ''k''" and ?rq1.0 = "()" and ?c1.0 = one_left_cache
      and w = "example_wrapper example_handler example_getKey 5 False" and req = "()"
      and x = expiring_io and c = one_left_cache and st = "\<lparr>remaining = 1, reset = 61000\<rparr>"
      and ?w3.0 = "example_wrapper example_handler example_getKey 5 False" and ?rq3.0 = "()"
      and ?x3.0 = "at 1000 (LimitReturns (answer True 4 1000))" and ?c3.0 = "[]"
      and r = "answer True 4 1000" and k = "Str ''k''"
      and ?st4.0 = "\<lparr>remaining = 3, reset = 61000\<rparr>" and ttl = 60000
      and ?w4.0 = "example_wrapper example_handler example_getKey 5 False"
      and ?x4.0 = "at 1000 (LimitReturns (answer True 4 61000))" and ?rq4.0 = "()"
      and ?c4.0 = "[]"]
  by (simp add: model_defs example_defs expiring_io_def one_left_cache_def live_entry_def
      reaches_remote_def after_lookup_def lookup_events_def)

subsection \<open>Remote failures\<close>

lemma remote_failure:
  assumes "truthy (getKey w req)" "reaches_remote w x (getKey w req) c"
    and "limit x (getKey w req) = LimitThrows e"
  shows "handle_request w x req c =
     (Inr (Json 500 (Text ''Internal Server Error'')), after_lookup w x (getKey w req) c,
      lookup_events w (getKey w req) @ [RemoteCall (getKey w req)])"
  using assms(3) by (simp add: handle_request_remote [OF assms(1,2)] remote_step_def)

text \<open>A rejected \<open>pending\<close> promise is caught in the same way.\<close>

lemma pending_failure:
  assumes "truthy (getKey w req)" "reaches_remote w x (getKey w req) c"
    and "limit x (getKey w req) = LimitReturns r" "pending r = Fails e"
  shows "handle_request w x req c =
     (Inr (Json 500 (Text ''Internal Server Error'')), after_lookup w x (getKey w req) c,
      lookup_events w (getKey w req) @ [RemoteCall (getKey w req)])"
  using assms(3,4) by (simp add: handle_request_remote [OF assms(1,2)] remote_step_def)

text \<open>
  C6. When the remote call throws on a request that reached it, the answer is 500 with the
  body \<open>{error: "Internal Server Error"}\<close>; it is a response, not a rejection of the
  closure's promise; the effects are the lookup (cache enabled) and the remote call, so the
  handler is not invoked and nothing is written: the cache is as the lookup left it, with
  no entry that was not there before, unchanged for a key without an entry (an empty cache
  stays empty), and every later lookup returns what it would have returned.
\<close>

theorem remote_failure_answers_500:
  "truthy (getKey w req) \<and> reaches_remote w x (getKey w req) c \<and>
   limit x (getKey w req) = LimitThrows e \<longrightarrow>
     handle_request w x req c =
       (Inr (Json 500 (Text ''Internal Server Error'')), after_lookup w x (getKey w req) c,
        lookup_events w (getKey w req) @ [RemoteCall (getKey w req)]) \<and>
     set (after_lookup w x (getKey w req) c) \<subseteq> set c \<and>
     (map_of c (getKey w req) = None \<longrightarrow> after_lookup w x (getKey w req) c = c) \<and>
     (t_get x \<le> t \<longrightarrow>
        fst (cache_get t k' (after_lookup w x (getKey w req) c)) = fst (cache_get t k' c))"
  using remote_failure [of w req x c e] after_lookup_subset [of w x "getKey w req" c]
    after_lookup_unseen [of c "getKey w req" w x]
    after_lookup_same_content [of x t k' w "getKey w req" c]
  by blast

theorem remote_failure_answers_500_witness:
  "(truthy (getKey (example_wrapper example_handler example_getKey 5 False) ()) \<and>
    reaches_remote (example_wrapper example_handler example_getKey 5 False)
      (at 1000 remote_down) (Str ''k'') [] \<and>
    limit (at 1000 remote_down) (Str ''k'') = LimitThrows ''ECONNRESET'' \<and>
    map_of ([] :: LRUCache) (Str ''k'') = None) \<and>
   handle_request (example_wrapper example_handler example_getKey 5 False)
     (at 1000 remote_down) () [] =
     (Inr (Json 500 (Text ''Internal Server Error'')), [],
      [CacheGet (Str ''k''), RemoteCall (Str ''k'')]) \<and>
   after_lookup (example_wrapper example_handler example_getKey 5 False)
     (at 1000 remote_down) (Str ''k'') [] = [] \<and>
   t_get (at 1000 remote_down) \<le> 2000 \<and>
   fst (cache_get 2000 (Str ''k'')
     (after_lookup (example_wrapper example_handler example_getKey 5 False)
       (at 1000 remote_down) (Str ''k'') [])) = None"
  using remote_failure_answers_500
    [where w = "example_wrapper example_handler example_getKey 5 False" and req = "()"
      and x = "at 1000 remote_down" and c = "[]" and e = "''ECONNRESET''"
      and t = 2000 and k' = "Str ''k''"]
  by (simp add: example_defs reaches_remote_def live_entry_def after_lookup_def
      lookup_events_def cache_get_def)

subsection \<open>Construction\<close>

lemma upstash_requires_credentials:
  "parse options = Inr ops \<Longrightarrow> provider ops = upstash \<Longrightarrow>
   missing (env ''UPSTASH_URL'') \<or> missing (env ''UPSTASH_TOKEN'') \<Longrightarrow>
   withRateLimit h g options env = Inl MissingUpstashEnv"
  by (simp add: withRateLimit_def)

lemma vercelKV_never_reads_env:
  "parse options = Inr ops \<Longrightarrow> provider ops = vercelKV \<Longrightarrow>
   withRateLimit h g options env = Inr (\<lparr>handler = h, getKey = g, opts = ops\<rparr>, [])"
  by (simp add: withRateLimit_def)

text \<open>
  C7 fails on the code. With \<open>provider: 'vercelKV'\<close> and an environment that defines no
  variable at all, \<open>withRateLimit\<close> returns the closure: only the \<open>upstash\<close> branch (line
  32) checks its credentials.
\<close>

theorem vercelKV_constructed_without_credentials:
  "withRateLimit example_handler example_getKey (only_provider vercelKV) Map.empty =
     Inr (\<lparr>handler = example_handler, getKey = example_getKey,
           opts = \<lparr>timeframe = 60, requestsLimit = 5, disableLRU = False,
                   provider = vercelKV, errorMessage = None\<rparr>\<rparr>, [])"
  by (simp add: withRateLimit_def parse_def only_provider_def)

text \<open>The same environment with the \<open>upstash\<close> provider: construction throws.\<close>

lemma upstash_not_constructed_without_credentials:
  "withRateLimit example_handler example_getKey (only_provider upstash) Map.empty =
     Inl MissingUpstashEnv"
  by (simp add: withRateLimit_def parse_def only_provider_def)

subsection \<open>Keys that cannot be determined\<close>

lemma falsy_key_answers_400:
  "\<not> truthy (getKey w req) \<Longrightarrow>
   handle_request w x req c =
     (Inr (Json 400 (Text ''Unable to determine rate limit key'')), c, [])"
  by (simp add: handle_request_def)

text \<open>A synchronous extractor that yields the empty string (or \<open>undefined\<close>) is answered
  400, with no effect at all.\<close>

lemma empty_string_key_answers_400:
  "getKey w req = Str [] \<Longrightarrow>
   handle_request w x req c =
     (Inr (Json 400 (Text ''Unable to determine rate limit key'')), c, [])"
  by (simp add: falsy_key_answers_400)

text \<open>
  C8 fails on the code. Line 66 does not await \<open>getKey(req)\<close>: for the README's
  asynchronous extractor, which resolves to the empty string, \<open>key\<close> is a Promise, \<open>!key\<close>
  is false, the remote store is called and the handler runs; the answer is not 400.
\<close>

theorem async_empty_key_passes:
  "handle_request (example_wrapper example_handler example_async_getKey 5 False)
     (at 1000 (LimitReturns (answer True 4 61000))) () [] =
     (Inr (FromHandler ''ok''),
      [(PromiseOf 0 [], \<lparr>state = \<lparr>remaining = 3, reset = 61000\<rparr>, expiresAt = 61000\<rparr>)],
      [CacheGet (PromiseOf 0 []), RemoteCall (PromiseOf 0 []),
       CacheSet (PromiseOf 0 []) \<lparr>remaining = 3, reset = 61000\<rparr> 60000, HandlerCall])"
  by (simp add: model_defs example_defs example_async_getKey_def)

subsection \<open>The cache disabled\<close>

lemma disabled_cache_step:
  assumes "disableLRU (opts w)" "truthy (getKey w req)"
  shows "\<exists>out tr. handle_request w x req c = (out, c, tr) \<and> one_remote_no_cache (out, tr)"
proof -
  have rr: "reaches_remote w x (getKey w req) c"
    using assms(1) by (simp add: reaches_remote_def)
  show ?thesis
    using assms(1)
    by (auto simp: handle_request_remote [OF assms(2) rr] remote_step_def after_lookup_def
        lookup_events_def handleLimitExceeded_def one_remote_no_cache_def
        split: limit_result.splits pending.splits)
qed

lemma disabled_cache_run:
  assumes "disableLRU (opts w)"
  shows "list_all (\<lambda>p. truthy (getKey w (snd p))) rs \<Longrightarrow>
         snd (run w rs c) = c \<and> length (fst (run w rs c)) = length rs \<and>
         list_all one_remote_no_cache (fst (run w rs c))"
proof (induction rs)
  case Nil
  then show ?case by simp
next
  case (Cons p rs)
  obtain x req where p: "p = (x, req)" by (cases p)
  from Cons.prems p have k: "truthy (getKey w req)"
    and rest: "list_all (\<lambda>p. truthy (getKey w (snd p))) rs" by simp_all
  from disabled_cache_step [OF assms k]
  obtain out tr where step: "handle_request w x req c = (out, c, tr)"
    and one: "one_remote_no_cache (out, tr)" by blast
  from Cons.IH [OF rest] show ?case
    using step one by (auto simp: p split: prod.splits)
qed

text \<open>
  C9. With \<open>disableLRU = true\<close>, whatever the cache holds and whatever requests came
  before, every request with a truthy key calls the remote store exactly once and has no
  cache read or write among its effects, and the cache is at the end what it was at the
  start.
\<close>

theorem disabled_cache_one_remote_call_each:
  "disableLRU (opts w) \<and> list_all (\<lambda>p. truthy (getKey w (snd p))) rs \<longrightarrow>
     snd (run w rs c) = c \<and> length (fst (run w rs c)) = length rs \<and>
     list_all one_remote_no_cache (fst (run w rs c))"
  using disabled_cache_run [of w rs c] by blast

theorem disabled_cache_one_remote_call_each_witness:
  "(disableLRU (opts (example_wrapper example_handler example_getKey 5 True)) \<and>
    list_all (\<lambda>p. truthy (getKey (example_wrapper example_handler example_getKey 5 True) (snd p)))
      [(at 1000 (LimitReturns (answer True 4 61000)), ()),
       (at 2000 (LimitReturns (answer False 0 61000)), ()), (at 3000 remote_down, ())]) \<and>
   snd (run (example_wrapper example_handler example_getKey 5 True)
      [(at 1000 (LimitReturns (answer True 4 61000)), ()),
       (at 2000 (LimitReturns (answer False 0 61000)), ()), (at 3000 remote_down, ())]
      one_left_cache) = one_left_cache \<and>
   length (fst (run (example_wrapper example_handler example_getKey 5 True)
      [(at 1000 (LimitReturns (answer True 4 61000)), ()),
       (at 2000 (LimitReturns (answer False 0 61000)), ()), (at 3000 remote_down, ())]
      one_left_cache)) = 3 \<and>
   list_all one_remote_no_cache (fst (run (example_wrapper example_handler example_getKey 5 True)
      [(at 1000 (LimitReturns (answer True 4 61000)), ()),
       (at 2000 (LimitReturns (answer False 0 61000)), ()), (at 3000 remote_down, ())]
      one_left_cache))"
  using disabled_cache_one_remote_call_each
    [where w = "example_wrapper example_handler example_getKey 5 True"
      and rs = "[(at 1000 (LimitReturns (answer True 4 61000)), ()),
       (at 2000 (LimitReturns (answer False 0 61000)), ()), (at 3000 remote_down, ())]"
      and c = one_left_cache]
  by (simp add: example_defs)

subsection \<open>Exceptions of the wrapped handler\<close>

lemma local_hit_outcome:
  assumes "truthy (getKey w req)" "\<not> disableLRU (opts w)"
    and "live_entry x (getKey w req) c = Some st" "0 < remaining st"
  shows "fst (handle_request w x req c) = outside_try (handler w req)"
  using assms(4)
  by (simp add: handle_request_local [OF assms(1-3)] updateCacheAndProceed_def Let_def)

lemma remote_allow_outcome:
  assumes "truthy (getKey w req)" "reaches_remote w x (getKey w req) c"
    and "limit x (getKey w req) = LimitReturns r" "success r" "settles (pending r)"
  shows "fst (handle_request w x req c) = inside_try (handler w req)"
  using assms(3-5)
  by (cases "pending r")
    (simp_all add: handle_request_remote [OF assms(1,2)] remote_step_def
      updateCacheAndProceed_def Let_def split: prod.splits)

text \<open>C10 as stated fails for an \<open>async\<close> handler: after a cache miss allowed by the
  remote store its rejection is not turned into a 500; the closure's promise rejects.\<close>

theorem async_handler_rejection_escapes_try_counterexample:
  "fst (handle_request (example_wrapper rejecting_handler example_getKey 5 False)
     (at 1000 (LimitReturns (answer True 4 61000))) () []) = Inl ''boom''"
  by (simp add: model_defs example_defs rejecting_handler_def)

text \<open>
  C10 (as amended). After a local cache hit the handler runs outside the \<open>try\<close>: a
  synchronous throw and a rejected promise both reach the caller. After a cache miss
  allowed by the remote store the handler runs inside the \<open>try\<close>: a synchronous throw is
  caught and answered 500 \<open>{error: "Internal Server Error"}\<close>, while a rejected promise,
  returned without \<open>await\<close>, still reaches the caller.
\<close>

theorem handler_failure_by_path:
  "(truthy (getKey w req) \<and> \<not> disableLRU (opts w) \<and>
    live_entry x (getKey w req) c = Some st \<and> 0 < remaining st \<and>
    handler w req = Throws e \<longrightarrow> fst (handle_request w x req c) = Inl e) \<and>
   (truthy (getKey w2 rq2) \<and> \<not> disableLRU (opts w2) \<and>
    live_entry x2 (getKey w2 rq2) c2 = Some st2 \<and> 0 < remaining st2 \<and>
    handler w2 rq2 = Rejects e2 \<longrightarrow> fst (handle_request w2 x2 rq2 c2) = Inl e2) \<and>
   (truthy (getKey w3 rq3) \<and> reaches_remote w3 x3 (getKey w3 rq3) c3 \<and>
    limit x3 (getKey w3 rq3) = LimitReturns r3 \<and> success r3 \<and> settles (pending r3) \<and>
    handler w3 rq3 = Throws e3 \<longrightarrow>
      fst (handle_request w3 x3 rq3 c3) = Inr (Json 500 (Text ''Internal Server Error''))) \<and>
   (truthy (getKey w4 rq4) \<and> reaches_remote w4 x4 (getKey w4 rq4) c4 \<and>
    limit x4 (getKey w4 rq4) = LimitReturns r4 \<and> success r4 \<and> settles (pending r4) \<and>
    handler w4 rq4 = Rejects e4 \<longrightarrow> fst (handle_request w4 x4 rq4 c4) = Inl e4)"
proof (intro conjI impI)
  assume "truthy (getKey w req) \<and> \<not> disableLRU (opts w) \<and>
    live_entry x (getKey w req) c = Some st \<and> 0 < remaining st \<and> handler w req = Throws e"
  then show "fst (handle_request w x req c) = Inl e"
    using local_hit_outcome [of w req x c st] by simp
next
  assume "truthy (getKey w2 rq2) \<and> \<not> disableLRU (opts w2) \<and>
    live_entry x2 (getKey w2 rq2) c2 = Some st2 \<and> 0 < remaining st2 \<and>
    handler w2 rq2 = Rejects e2"
  then show "fst (handle_request w2 x2 rq2 c2) = Inl e2"
    using local_hit_outcome [of w2 rq2 x2 c2 st2] by simp
next
  assume "truthy (getKey w3 rq3) \<and> reaches_remote w3 x3 (getKey w3 rq3) c3 \<and>
    limit x3 (getKey w3 rq3) = LimitReturns r3 \<and> success r3 \<and> settles (pending r3) \<and>
    handler w3 rq3 = Throws e3"
  then show "fst (handle_request w3 x3 rq3 c3) = Inr (Json 500 (Text ''Internal Server Error''))"
    using remote_allow_outcome [of w3 rq3 x3 c3 r3] by simp
next
  assume "truthy (getKey w4 rq4) \<and> reaches_remote w4 x4 (getKey w4 rq4) c4 \<and>
    limit x4 (getKey w4 rq4) = LimitReturns r4 \<and> success r4 \<and> settles (pending r4) \<and>
    handler w4 rq4 = Rejects e4"
  then show "fst (handle_request w4 x4 rq4 c4) = Inl e4"
    using remote_allow_outcome [of w4 rq4 x4 c4 r4] by simp
qed

theorem handler_failure_by_path_witness:
  "(live_entry (at 2000 remote_down) (Str ''k'') one_left_cache =
      Some \<lparr>remaining = 1, reset = 61000\<rparr> \<and>
    reaches_remote (example_wrapper throwing_handler example_getKey 5 False)
      (at 1000 (LimitReturns (answer True 4 61000))) (Str ''k'') [] \<and>
    reaches_remote (example_wrapper rejecting_handler example_getKey 5 False)
      (at 1000 (LimitReturns (answer True 4 61000))) (Str ''k'') [] \<and>
    success (answer True 4 61000) \<and> settles (pending (answer True 4 61000))) \<and>
   fst (handle_request (example_wrapper throwing_handler example_getKey 5 False)
     (at 2000 remote_down) () one_left_cache) = Inl ''boom'' \<and>
   fst (handle_request (example_wrapper rejecting_handler example_getKey 5 False)
     (at 2000 remote_down) () one_left_cache) = Inl ''boom'' \<and>
   fst (handle_request (example_wrapper throwing_handler example_getKey 5 False)
     (at 1000 (LimitReturns (answer True 4 61000))) () []) =
     Inr (Json 500 (Text ''Internal Server Error'')) \<and>
   fst (handle_request (example_wrapper rejecting_handler example_getKey 5 False)
     (at 1000 (LimitReturns (answer True 4 61000))) () []) = Inl ''boom''"
  using handler_failure_by_path
    [where w = "example_wrapper throwing_handler example_getKey 5 False" and req = "()"
      and x = "at 2000 remote_down" and c = one_left_cache
      and st = "\<lparr>remaining = 1, reset = 61000\<rparr>" and e = "''boom''"
      and ?w2.0 = "example_wrapper rejecting_handler example_getKey 5 False" and ?rq2.0 = "()"
      and ?x2.0 = "at 2000 remote_down" and ?c2.0 = one_left_cache
      and ?st2.0 = "\<lparr>remaining = 1, reset = 61000\<rparr>" and ?e2.0 = "''boom''"
      and ?w3.0 = "example_wrapper throwing_handler example_getKey 5 False" and ?rq3.0 = "()"
      and ?x3.0 = "at 1000 (LimitReturns (answer True 4 61000))" and ?c3.0 = "[]"
      and ?r3.0 = "answer True 4 61000" and ?e3.0 = "''boom''"
      and ?w4.0 = "example_wrapper rejecting_handler example_getKey 5 False" and ?rq4.0 = "()"
      and ?x4.0 = "at 1000 (LimitReturns (answer True 4 61000))" and ?c4.0 = "[]"
      and ?r4.0 = "answer True 4 61000" and ?e4.0 = "''boom''"]
  by (simp add: example_defs throwing_handler_def rejecting_handler_def one_left_cache_def
      live_entry_def reaches_remote_def cache_get_def expired_def)

end
